theory Spec2Isabelle
  imports Complex_Main "HOL-Library.Multiset" "HOL-Library.Product_Lexorder"
begin

section \<open>Data model\<close>

text \<open>
  The tables of \<^verbatim>\<open>connector_utils.py\<close> are pandas data frames; a table is modelled as
  the list of its rows, in row order, and a row as a record of the columns the code
  reads or writes. Identifiers are integers, coordinates are reals (the floating-point
  columns of the files, idealised). A column that a table may lack is an option:
  \<open>None\<close> is what pandas shows as a missing value (NaN) once tables with different
  columns are concatenated.
\<close>

datatype layer = Meso | Micro | Taz

datatype zone = Zone int | NoZone
  \<comment> \<open>\<open>NoZone\<close> is the empty string that \<^verbatim>\<open>reindex_nodes\<close> writes.\<close>

datatype error = KeyError | IndexError | NaNValue
  \<comment> \<open>\<open>NaNValue\<close>: the maximum of a column without rows is NaN in pandas, and so is every
      identifier computed from it; the model stops there instead of carrying NaN on.\<close>

text \<open>A row of the TAZ table; \<open>candidates\<close> holds the columns
  \<^verbatim>\<open>candidate_node_id_1\<close>, \<^verbatim>\<open>candidate_node_id_2\<close>, ... in rank order.\<close>

record taz =
  TAZ_clean :: int
  x_coord :: real
  y_coord :: real
  candidates :: "int list"

text \<open>A row of a meso or micro node table. \<open>scc_id\<close> is read on meso nodes only and
  \<open>meso_link_id\<close> is written on micro nodes only.\<close>

record node =
  node_id :: int
  x_coord :: real
  y_coord :: real
  scc_id :: int
  meso_link_id :: int
  zone_id :: "zone option"
  layer :: "layer option"

text \<open>A row of the TAZ node table of \<^verbatim>\<open>create_taz_nodes\<close> and of the final node table:
  exactly the columns \<^verbatim>\<open>node_id, x, y, zone_id, layer\<close>.\<close>

record final_node =
  node_id :: int
  x :: "real option"
  y :: "real option"
  zone_id :: "zone option"
  layer :: "layer option"

text \<open>A row of a link table: meso links, micro links, connectors and the final table.
  The column \<^verbatim>\<open>length\<close> is the field \<open>length_col\<close>. Columns of the input files that no
  function reads or writes (\<^verbatim>\<open>lane_no\<close> and any extra column) are left out.\<close>

record link =
  link_id :: int
  from_node_id :: int
  to_node_id :: int
  meso_link_id :: "int option"
  layer :: "layer option"
  dir_flag :: "int option"
  length_col :: "real option"
  lanes :: "int option"
  free_speed :: "real option"
  capacity :: "real option"
  link_type_name :: "string option"
  link_type :: "int option"
  geometry :: "string option"
  allowed_uses :: "string option"
  from_biway :: "int option"
  is_link :: "int option"

text \<open>A row of the TAZ-to-micro mapping built by \<^verbatim>\<open>map_taz_to_micro_nodes\<close>.\<close>

record taz_micro =
  taz_id :: int
  micro_node_id :: int
  x_coord :: real
  y_coord :: real

section \<open>Nearest-access finder\<close>

definition distance :: "taz \<Rightarrow> node \<Rightarrow> real" where
  "distance t n =
     sqrt ((node.x_coord n - taz.x_coord t) ^ 2 + (node.y_coord n - taz.y_coord t) ^ 2)"

text \<open>\<^verbatim>\<open>nsmallest(k, 'distance')\<close> keeps the first \<open>k\<close> rows of a stable ascending sort.\<close>

definition nsmallest :: "nat \<Rightarrow> ('a \<Rightarrow> real) \<Rightarrow> 'a list \<Rightarrow> 'a list" where
  "nsmallest k f rows = take k (sort_key f rows)"

text \<open>Writing the keys \<^verbatim>\<open>candidate_node_id_1 .. candidate_node_id_n\<close> into the row's
  dictionary overwrites these columns and keeps any later one the row already had.\<close>

definition set_candidates :: "int list \<Rightarrow> taz \<Rightarrow> taz" where
  "set_candidates ids t = t\<lparr>candidates := ids @ drop (length ids) (candidates t)\<rparr>"

definition find_nearest_scc_nodes :: "taz list \<Rightarrow> node list \<Rightarrow> nat \<Rightarrow> taz list" where
  "find_nearest_scc_nodes taz_df meso_nodes num_candidates =
     (let largest_scc_nodes = filter (\<lambda>n. scc_id n = 0) meso_nodes
      in map (\<lambda>t. let nearest = nsmallest num_candidates (distance t) largest_scc_nodes
                  in set_candidates (map node.node_id nearest) t) taz_df)"

section \<open>Downstream micro locator\<close>

text \<open>The source returns \<^verbatim>\<open>list(from_nodes - to_nodes)\<close>, a list in the iteration order of
  a Python set; its only reader tests membership, so the model keeps the set.\<close>

definition isin :: "int option \<Rightarrow> int list \<Rightarrow> bool" where
  "isin v ids = (case v of None \<Rightarrow> False | Some i \<Rightarrow> i \<in> set ids)"

definition find_start_micro_nodes :: "int \<Rightarrow> link list \<Rightarrow> link list \<Rightarrow> int set" where
  "find_start_micro_nodes meso_node_id meso_links micro_links =
     (let meso_link_ids = map link_id (filter (\<lambda>l. from_node_id l = meso_node_id) meso_links);
          micro_subset = filter (\<lambda>l. isin (link.meso_link_id l) meso_link_ids) micro_links;
          from_nodes = set (map from_node_id micro_subset);
          to_nodes = set (map to_node_id micro_subset)
      in from_nodes - to_nodes)"

text \<open>\<^verbatim>\<open>row[candidate_col]\<close> for the column \<^verbatim>\<open>candidate_node_id_c\<close>: a KeyError when the
  row has no such column.\<close>

definition candidate :: "nat \<Rightarrow> taz \<Rightarrow> error + int" where
  "candidate c t =
     (if 1 \<le> c \<and> c \<le> length (candidates t) then Inr (candidates t ! (c - 1))
      else Inl KeyError)"

fun map_taz_to_micro_nodes ::
  "taz list \<Rightarrow> link list \<Rightarrow> link list \<Rightarrow> node list \<Rightarrow> nat \<Rightarrow> error + taz_micro list" where
  "map_taz_to_micro_nodes [] meso_links micro_links micro_nodes candidate_col = Inr []"
| "map_taz_to_micro_nodes (row # rows) meso_links micro_links micro_nodes candidate_col =
     (case candidate candidate_col row of
        Inl e \<Rightarrow> Inl e
      | Inr meso_node_id \<Rightarrow>
          (let start_nodes = find_start_micro_nodes meso_node_id meso_links micro_links;
               coords = filter (\<lambda>n. node.node_id n \<in> start_nodes) micro_nodes;
               results = map (\<lambda>n. \<lparr>taz_id = TAZ_clean row, micro_node_id = node.node_id n,
                                    x_coord = node.x_coord n, y_coord = node.y_coord n\<rparr>) coords
           in case map_taz_to_micro_nodes rows meso_links micro_links micro_nodes candidate_col of
                Inl e \<Rightarrow> Inl e
              | Inr rest \<Rightarrow> Inr (results @ rest)))"

section \<open>ID-space reindexer\<close>

text \<open>The maximum of a column: NaN when the table has no rows. (A TAZ table without
  rows that reaches \<^verbatim>\<open>compute_shifts\<close> in the pipeline was built from an empty list and
  has no column \<^verbatim>\<open>TAZ_clean\<close> at all; the source fails there too, with a KeyError.)\<close>

definition col_max :: "int list \<Rightarrow> error + int" where
  "col_max vals = (if vals = [] then Inl NaNValue else Inr (Max (set vals)))"

definition compute_shifts :: "taz list \<Rightarrow> node list \<Rightarrow> error + (int \<times> int \<times> int)" where
  "compute_shifts taz_df meso_nodes =
     (case col_max (map TAZ_clean taz_df) of
        Inl e \<Rightarrow> Inl e
      | Inr max_taz_id \<Rightarrow>
          (let node_shift_meso = max_taz_id + 1
           in case col_max (map node.node_id meso_nodes) of
                Inl e \<Rightarrow> Inl e
              | Inr max_meso \<Rightarrow>
                  (let node_shift_micro = node_shift_meso + max_meso;
                       link_shift_meso = int (length taz_df) * 2 + 1
                   in Inr (node_shift_meso, node_shift_micro, link_shift_meso))))"

text \<open>\<^verbatim>\<open>reindex_nodes\<close> shifts copies of the two tables. The first component of the result
  is the pair of tables the caller passed, as they are after the call; the second is the
  pair of tables returned.\<close>

definition reindex_nodes ::
  "node list \<Rightarrow> node list \<Rightarrow> int \<Rightarrow> int \<Rightarrow> int \<Rightarrow> (node list \<times> node list) \<times> (node list \<times> node list)" where
  "reindex_nodes meso_nodes micro_nodes node_shift_meso node_shift_micro link_shift_meso =
     (let meso_copy = meso_nodes;
          micro_copy = micro_nodes;
          meso_copy = map (\<lambda>n. n\<lparr>node.node_id := node.node_id n + node_shift_meso\<rparr>) meso_copy;
          micro_copy = map (\<lambda>n. n\<lparr>node.node_id := node.node_id n + node_shift_micro\<rparr>) micro_copy;
          micro_copy = map (\<lambda>n. n\<lparr>node.meso_link_id := node.meso_link_id n + link_shift_meso\<rparr>) micro_copy;
          meso_copy = map (\<lambda>n. n\<lparr>node.zone_id := Some NoZone\<rparr>) meso_copy;
          micro_copy = map (\<lambda>n. n\<lparr>node.zone_id := Some NoZone\<rparr>) micro_copy
      in ((meso_nodes, micro_nodes), (meso_copy, micro_copy)))"

definition create_taz_nodes :: "taz list \<Rightarrow> (taz \<Rightarrow> int) \<Rightarrow> final_node list" where
  "create_taz_nodes taz_df taz_id_col =
     map (\<lambda>t. \<lparr>node_id = taz_id_col t, x = Some (taz.x_coord t), y = Some (taz.y_coord t),
                zone_id = Some (Zone (taz_id_col t)), layer = Some Taz\<rparr>) taz_df"

section \<open>Connector synthesizer\<close>

text \<open>The geometry is the formatted string
  \<^verbatim>\<open>f"LINESTRING ({ax} {ay}, {bx} {by})"\<close>; \<open>fmt\<close> stands for Python's rendering of a
  number inside an f-string.\<close>

definition linestring :: "(real \<Rightarrow> string) \<Rightarrow> real \<Rightarrow> real \<Rightarrow> real \<Rightarrow> real \<Rightarrow> string" where
  "linestring fmt ax ay bx bY =
     ''LINESTRING ('' @ fmt ax @ '' '' @ fmt ay @ '', '' @ fmt bx @ '' '' @ fmt bY @ '')''"

text \<open>The dictionary appended for one connector link.\<close>

definition connector :: "int \<Rightarrow> int \<Rightarrow> int \<Rightarrow> layer \<Rightarrow> string \<Rightarrow> link" where
  "connector lid from_id to_id lay geom =
     \<lparr>link_id = lid, from_node_id = from_id, to_node_id = to_id, meso_link_id = None,
      layer = Some lay, dir_flag = Some 1, length_col = Some 100, lanes = Some 1,
      free_speed = Some 120, capacity = Some 100000, link_type_name = Some ''connector'',
      link_type = Some 0, geometry = Some geom, allowed_uses = Some ''auto'',
      from_biway = Some 1, is_link = Some 0\<rparr>"

text \<open>\<^verbatim>\<open>df[df[col] == v].iloc[0]\<close>: the first matching row, an IndexError when there is none.\<close>

definition iloc0 :: "'a list \<Rightarrow> error + 'a" where
  "iloc0 rows = (case rows of [] \<Rightarrow> Inl IndexError | r # _ \<Rightarrow> Inr r)"

text \<open>The loop of \<^verbatim>\<open>generate_meso_connectors\<close>, from the counter \<open>lid\<close> on.\<close>

fun meso_connectors_from ::
  "(real \<Rightarrow> string) \<Rightarrow> int \<Rightarrow> taz list \<Rightarrow> node list \<Rightarrow> nat \<Rightarrow> (taz \<Rightarrow> int) \<Rightarrow> int \<Rightarrow> error + link list" where
  "meso_connectors_from fmt lid [] meso_nodes candidate_col taz_id_col node_shift_meso = Inr []"
| "meso_connectors_from fmt lid (row # rows) meso_nodes candidate_col taz_id_col node_shift_meso =
     (case candidate candidate_col row of
        Inl e \<Rightarrow> Inl e
      | Inr cand \<Rightarrow>
          (let tid = taz_id_col row;
               taz_x = taz.x_coord row;
               taz_y = taz.y_coord row;
               meso_node_id = cand + node_shift_meso
           in case iloc0 (filter (\<lambda>n. node.node_id n = meso_node_id) meso_nodes) of
                Inl e \<Rightarrow> Inl e
              | Inr m \<Rightarrow>
                  (let mx = node.x_coord m; my = node.y_coord m
                   in case meso_connectors_from fmt (lid + 2) rows meso_nodes candidate_col
                             taz_id_col node_shift_meso of
                        Inl e \<Rightarrow> Inl e
                      | Inr rest \<Rightarrow>
                          Inr (connector lid tid meso_node_id Meso
                                 (linestring fmt taz_x taz_y mx my)
                               # connector (lid + 1) meso_node_id tid Meso
                                   (linestring fmt mx my taz_x taz_y)
                               # rest))))"

definition generate_meso_connectors ::
  "(real \<Rightarrow> string) \<Rightarrow> taz list \<Rightarrow> node list \<Rightarrow> nat \<Rightarrow> (taz \<Rightarrow> int) \<Rightarrow> int \<Rightarrow> error + link list" where
  "generate_meso_connectors fmt taz_df meso_nodes candidate_col taz_id_col node_shift_meso =
     meso_connectors_from fmt 1 taz_df meso_nodes candidate_col taz_id_col node_shift_meso"

text \<open>The loop of \<^verbatim>\<open>generate_micro_connectors\<close>, with the set of claimed micro nodes and
  the counter.\<close>

fun micro_connectors_from ::
  "(real \<Rightarrow> string) \<Rightarrow> int set \<Rightarrow> int \<Rightarrow> taz list \<Rightarrow> taz_micro list \<Rightarrow> (taz \<Rightarrow> int) \<Rightarrow> int \<Rightarrow> error + link list" where
  "micro_connectors_from fmt used_nodes lid taz_df [] taz_id_col node_shift_micro = Inr []"
| "micro_connectors_from fmt used_nodes lid taz_df (row # rows) taz_id_col node_shift_micro =
     (let tid = taz_id row;
          mid = micro_node_id row + node_shift_micro
      in if mid \<in> used_nodes
         then micro_connectors_from fmt used_nodes lid taz_df rows taz_id_col node_shift_micro
         else case iloc0 (filter (\<lambda>t. taz_id_col t = tid) taz_df) of
                Inl e \<Rightarrow> Inl e
              | Inr taz_row \<Rightarrow>
                  (let taz_x = taz.x_coord taz_row; taz_y = taz.y_coord taz_row;
                       mx = taz_micro.x_coord row; my = taz_micro.y_coord row
                   in case micro_connectors_from fmt (insert mid used_nodes) (lid + 2) taz_df rows
                             taz_id_col node_shift_micro of
                        Inl e \<Rightarrow> Inl e
                      | Inr rest \<Rightarrow>
                          Inr (connector lid tid mid Micro (linestring fmt taz_x taz_y mx my)
                               # connector (lid + 1) mid tid Micro
                                   (linestring fmt mx my taz_x taz_y)
                               # rest)))"

text \<open>The parameter \<^verbatim>\<open>micro_nodes\<close> of the source is never read.\<close>

definition generate_micro_connectors ::
  "(real \<Rightarrow> string) \<Rightarrow> taz list \<Rightarrow> taz_micro list \<Rightarrow> node list \<Rightarrow> (taz \<Rightarrow> int) \<Rightarrow> int \<Rightarrow> int \<Rightarrow> error + link list" where
  "generate_micro_connectors fmt taz_df taz_micro_map micro_nodes taz_id_col node_shift_micro lid =
     micro_connectors_from fmt {} lid taz_df taz_micro_map taz_id_col node_shift_micro"

text \<open>The result of \<^verbatim>\<open>prepare_and_generate_connectors\<close>, in the order of the returned tuple.\<close>

record prepared =
  updated_meso_nodes :: "node list"
  updated_micro_nodes :: "node list"
  taz_nodes :: "final_node list"
  meso_connectors_df :: "link list"
  micro_connectors_df :: "link list"
  node_shift_meso :: int
  node_shift_micro :: int
  link_shift_meso :: int

definition prepare_and_generate_connectors ::
  "(real \<Rightarrow> string) \<Rightarrow> taz list \<Rightarrow> node list \<Rightarrow> node list \<Rightarrow> taz_micro list \<Rightarrow> nat \<Rightarrow> (taz \<Rightarrow> int)
     \<Rightarrow> error + prepared" where
  "prepare_and_generate_connectors fmt taz_df meso_nodes micro_nodes taz_micro_map candidate_col taz_id_col =
     (case compute_shifts taz_df meso_nodes of
        Inl e \<Rightarrow> Inl e
      | Inr (nsm, nsmi, lsm) \<Rightarrow>
          (let (upd_meso, upd_micro) = snd (reindex_nodes meso_nodes micro_nodes nsm nsmi lsm);
               tz = create_taz_nodes taz_df taz_id_col
           in case generate_meso_connectors fmt taz_df upd_meso candidate_col taz_id_col nsm of
                Inl e \<Rightarrow> Inl e
              | Inr meso_conn \<Rightarrow>
                  (case generate_micro_connectors fmt taz_df taz_micro_map micro_nodes taz_id_col nsmi 1 of
                     Inl e \<Rightarrow> Inl e
                   | Inr micro_conn \<Rightarrow>
                       Inr \<lparr>updated_meso_nodes = upd_meso, updated_micro_nodes = upd_micro,
                            taz_nodes = tz, meso_connectors_df = meso_conn,
                            micro_connectors_df = micro_conn, node_shift_meso = nsm,
                            node_shift_micro = nsmi, link_shift_meso = lsm\<rparr>)))"

section \<open>Layer merger\<close>

text \<open>\<^verbatim>\<open>merge_network_layers\<close> assigns into the tables it is given. \<open>merged\<close> holds the seven
  tables of the caller as they are when the function returns, and the two tables
  returned.

  A micro-connector table without rows is the frame \<^verbatim>\<open>pd.DataFrame([])\<close> of
  \<^verbatim>\<open>generate_micro_connectors\<close>, which has no column \<^verbatim>\<open>link_id\<close>: the assignment
  \<^verbatim>\<open>micro_connector_links['link_id'] += ...\<close> raises KeyError. The maximum taken just
  before does not raise, so the KeyError is the outcome whatever the meso-link table holds.

  \<open>sort_key\<close> is a stable sort. pandas does not fix the order of rows with equal
  \<open>node_id\<close> in the final node table; nothing below depends on that order.\<close>

record merged =
  after_meso_links :: "link list"
  after_meso_connector_links :: "link list"
  after_micro_links :: "link list"
  after_micro_connector_links :: "link list"
  after_meso_nodes :: "node list"
  after_micro_nodes :: "node list"
  after_taz_nodes :: "final_node list"
  final_links :: "link list"
  final_nodes :: "final_node list"

text \<open>Concatenating a layer's node table with the TAZ node table and projecting to
  \<^verbatim>\<open>['node_id', 'x', 'y', 'zone_id', 'layer']\<close>: a meso or micro node table has the columns
  \<^verbatim>\<open>x_coord\<close> and \<^verbatim>\<open>y_coord\<close> and no column \<^verbatim>\<open>x\<close> or \<^verbatim>\<open>y\<close>, so pandas fills these
  two with missing values in its rows.\<close>

definition project_node :: "node \<Rightarrow> final_node" where
  "project_node n =
     \<lparr>node_id = node.node_id n, x = None, y = None, zone_id = node.zone_id n,
      layer = node.layer n\<rparr>"

definition merge_network_layers ::
  "link list \<Rightarrow> link list \<Rightarrow> link list \<Rightarrow> link list \<Rightarrow> node list \<Rightarrow> node list \<Rightarrow> final_node list
     \<Rightarrow> int \<Rightarrow> int \<Rightarrow> int \<Rightarrow> error + merged" where
  "merge_network_layers meso_links meso_connector_links micro_links micro_connector_links
       meso_nodes micro_nodes tz_nodes nsm nsmi lsm =
     (let meso_nodes = map (\<lambda>n. n\<lparr>node.layer := Some Meso\<rparr>) meso_nodes;
          micro_nodes = map (\<lambda>n. n\<lparr>node.layer := Some Micro\<rparr>) micro_nodes;
          tz_nodes = map (\<lambda>n. n\<lparr>final_node.layer := Some Taz\<rparr>) tz_nodes;
          meso_links = map (\<lambda>l. l\<lparr>link.layer := Some Meso\<rparr>) meso_links;
          micro_links = map (\<lambda>l. l\<lparr>link.layer := Some Micro\<rparr>) micro_links;
          meso_links = map (\<lambda>l. l\<lparr>from_node_id := from_node_id l + nsm\<rparr>) meso_links;
          meso_links = map (\<lambda>l. l\<lparr>to_node_id := to_node_id l + nsm\<rparr>) meso_links;
          meso_links = map (\<lambda>l. l\<lparr>link_id := link_id l + lsm\<rparr>) meso_links;
          micro_links = map (\<lambda>l. l\<lparr>from_node_id := from_node_id l + nsmi\<rparr>) micro_links;
          micro_links = map (\<lambda>l. l\<lparr>to_node_id := to_node_id l + nsmi\<rparr>) micro_links;
          micro_links = map (\<lambda>l. l\<lparr>link.meso_link_id := map_option (\<lambda>i. i + lsm) (link.meso_link_id l)\<rparr>)
                          micro_links
      in if micro_connector_links = [] then Inl KeyError
         else case col_max (map link_id meso_links) of
           Inl e \<Rightarrow> Inl e
         | Inr link_shift_connector_micro \<Rightarrow>
             (let micro_connector_links =
                    map (\<lambda>l. l\<lparr>link_id := link_id l + link_shift_connector_micro\<rparr>) micro_connector_links
              in case col_max (map link_id micro_connector_links) of
                   Inl e \<Rightarrow> Inl e
                 | Inr mx \<Rightarrow>
                     (let link_shift_micro = mx + 1;
                          micro_links = map (\<lambda>l. l\<lparr>link_id := link_id l + link_shift_micro\<rparr>) micro_links;
                          fnodes = sort_key final_node.node_id
                                     (tz_nodes @ map project_node meso_nodes
                                        @ map project_node micro_nodes);
                          flinks = sort_key (\<lambda>l. (from_node_id l, to_node_id l))
                                     (meso_connector_links @ meso_links @ micro_connector_links
                                        @ micro_links)
                      in Inr \<lparr>after_meso_links = meso_links,
                              after_meso_connector_links = meso_connector_links,
                              after_micro_links = micro_links,
                              after_micro_connector_links = micro_connector_links,
                              after_meso_nodes = meso_nodes,
                              after_micro_nodes = micro_nodes,
                              after_taz_nodes = tz_nodes,
                              final_links = flinks, final_nodes = fnodes\<rparr>)))"

section \<open>The pipeline\<close>

text \<open>Steps 3 to 6 of \<^verbatim>\<open>main\<close>, from the tables loaded in step 1 and the meso node
  table annotated with \<open>scc_id\<close> in step 2. The component analysis of step 2 is done by
  the networkx library and is an input here.\<close>

definition main :: "(real \<Rightarrow> string) \<Rightarrow> taz list \<Rightarrow> node list \<Rightarrow> link list \<Rightarrow> node list \<Rightarrow> link list
     \<Rightarrow> error + merged" where
  "main fmt taz_df meso_nodes meso_links micro_nodes micro_links =
     (let taz_with_candidates = find_nearest_scc_nodes taz_df meso_nodes 1
      in case map_taz_to_micro_nodes taz_with_candidates meso_links micro_links micro_nodes 1 of
           Inl e \<Rightarrow> Inl e
         | Inr taz_micro_map \<Rightarrow>
             (case prepare_and_generate_connectors fmt taz_with_candidates meso_nodes micro_nodes
                     taz_micro_map 1 TAZ_clean of
                Inl e \<Rightarrow> Inl e
              | Inr p \<Rightarrow>
                  merge_network_layers meso_links (meso_connectors_df p) micro_links
                    (micro_connectors_df p) (updated_meso_nodes p) (updated_micro_nodes p)
                    (taz_nodes p) (node_shift_meso p) (node_shift_micro p) (link_shift_meso p)))"

section \<open>Properties and example tables\<close>



definition final_link_ids :: "merged \<Rightarrow> int list" where
  "final_link_ids m = map link_id (final_links m)"

definition final_node_ids :: "merged \<Rightarrow> int list" where
  "final_node_ids m = map final_node.node_id (final_nodes m)"

text \<open>Rows as the loader returns them: the required columns, no \<open>zone_id\<close> or
  \<open>layer\<close> yet, no candidate column.\<close>

definition taz_row :: "int \<Rightarrow> real \<Rightarrow> real \<Rightarrow> taz" where
  "taz_row i a b = \<lparr>TAZ_clean = i, x_coord = a, y_coord = b, candidates = []\<rparr>"

definition node_row :: "int \<Rightarrow> real \<Rightarrow> real \<Rightarrow> int \<Rightarrow> int \<Rightarrow> node" where
  "node_row i a b scc ml =
     \<lparr>node.node_id = i, x_coord = a, y_coord = b, scc_id = scc, meso_link_id = ml,
      zone_id = None, layer = None\<rparr>"

definition link_row :: "int \<Rightarrow> int \<Rightarrow> int \<Rightarrow> int option \<Rightarrow> link" where
  "link_row i a b ml =
     \<lparr>link_id = i, from_node_id = a, to_node_id = b, meso_link_id = ml, layer = None,
      dir_flag = None, length_col = None, lanes = None, free_speed = None, capacity = None,
      link_type_name = None, link_type = None, geometry = None, allowed_uses = None,
      from_biway = None, is_link = None\<rparr>"

text \<open>One TAZ at the origin; a meso cycle \<open>1 \<rightarrow> 2 \<rightarrow> 3 \<rightarrow> 1\<close> and an isolated meso node 4;
  meso link 1 subdivided into the micro chain \<open>11 \<rightarrow> 12 \<rightarrow> 13\<close>.\<close>

definition ex_fmt :: "real \<Rightarrow> string" where
  "ex_fmt r = (if r = 0 then ''0.0'' else if r = 1 then ''1.0'' else ''5.0'')"

definition ex_taz :: "taz list" where
  "ex_taz = [taz_row 1 0 0]"

definition ex_meso_nodes :: "node list" where
  "ex_meso_nodes = [node_row 1 0 1 0 0, node_row 2 1 0 0 0, node_row 3 5 0 0 0,
                    node_row 4 0 0 (- 1) 0]"

definition ex_meso_links :: "link list" where
  "ex_meso_links = [link_row 1 1 2 None, link_row 2 2 3 None, link_row 3 3 1 None]"

definition ex_micro_nodes :: "node list" where
  "ex_micro_nodes = [node_row 11 0 1 0 1, node_row 12 1 1 0 1, node_row 13 1 0 0 1]"

definition ex_micro_links :: "link list" where
  "ex_micro_links = [link_row 1 11 12 (Some 1), link_row 2 12 13 (Some 1)]"

text \<open>The tables of the example after each stage.\<close>

definition ex_taz_cand :: "taz list" where
  "ex_taz_cand = [(taz_row 1 0 0)\<lparr>candidates := [1]\<rparr>]"

definition ex_taz_micro_map :: "taz_micro list" where
  "ex_taz_micro_map = [\<lparr>taz_id = 1, micro_node_id = 11, x_coord = 0, y_coord = 1\<rparr>]"

definition ex_updated_meso_nodes :: "node list" where
  "ex_updated_meso_nodes =
     [(node_row 3 0 1 0 0)\<lparr>node.zone_id := Some NoZone\<rparr>,
      (node_row 4 1 0 0 0)\<lparr>node.zone_id := Some NoZone\<rparr>,
      (node_row 5 5 0 0 0)\<lparr>node.zone_id := Some NoZone\<rparr>,
      (node_row 6 0 0 (- 1) 0)\<lparr>node.zone_id := Some NoZone\<rparr>]"

definition ex_updated_micro_nodes :: "node list" where
  "ex_updated_micro_nodes =
     [(node_row 17 0 1 0 4)\<lparr>node.zone_id := Some NoZone\<rparr>,
      (node_row 18 1 1 0 4)\<lparr>node.zone_id := Some NoZone\<rparr>,
      (node_row 19 1 0 0 4)\<lparr>node.zone_id := Some NoZone\<rparr>]"

definition ex_meso_connectors :: "link list" where
  "ex_meso_connectors =
     [connector 1 1 3 Meso ''LINESTRING (0.0 0.0, 0.0 1.0)'',
      connector 2 3 1 Meso ''LINESTRING (0.0 1.0, 0.0 0.0)'']"

definition ex_micro_connectors :: "link list" where
  "ex_micro_connectors =
     [connector 1 1 17 Micro ''LINESTRING (0.0 0.0, 0.0 1.0)'',
      connector 2 17 1 Micro ''LINESTRING (0.0 1.0, 0.0 0.0)'']"

definition final_node_xy :: "merged \<Rightarrow> (int \<times> real option \<times> real option \<times> layer option) list" where
  "final_node_xy m =
     map (\<lambda>n. (final_node.node_id n, x n, y n, final_node.layer n)) (final_nodes m)"


definition ex_no_core :: "node list" where
  "ex_no_core = [node_row 4 0 0 (- 1) 0]"


definition ex_neg_meso_links :: "link list" where
  "ex_neg_meso_links = [link_row (- 1) 1 2 None, link_row 2 2 3 None, link_row 3 3 1 None]"

definition ex_neg_micro_links :: "link list" where
  "ex_neg_micro_links = [link_row 1 11 12 (Some (- 1)), link_row 2 12 13 (Some (- 1))]"

text \<open>A micro node table whose entry node has the id 0.\<close>

definition ex_zero_micro_nodes :: "node list" where
  "ex_zero_micro_nodes = [node_row 0 0 1 0 1, node_row 12 1 1 0 1, node_row 13 1 0 0 1]"

definition ex_zero_micro_links :: "link list" where
  "ex_zero_micro_links = [link_row 1 0 12 (Some 1), link_row 2 12 13 (Some 1)]"

section \<open>Lemmas about the stages\<close>

lemma map_taz_to_micro_nodes_eq:
  "\<forall>t \<in> set tz. 1 \<le> c \<and> c \<le> length (candidates t) \<Longrightarrow>
   map_taz_to_micro_nodes tz ml mil mn c =
     Inr (concat (map (\<lambda>t. map (\<lambda>n. \<lparr>taz_id = TAZ_clean t, micro_node_id = node.node_id n,
                                    x_coord = node.x_coord n, y_coord = node.y_coord n\<rparr>)
                          (filter (\<lambda>n. node.node_id n \<in>
                              find_start_micro_nodes (candidates t ! (c - 1)) ml mil) mn)) tz))"
  by (induction tz) (simp_all add: candidate_def)

lemma map_taz_to_micro_nodes_keyerror:
  "\<exists>t \<in> set tz. \<not> (1 \<le> c \<and> c \<le> length (candidates t)) \<Longrightarrow>
   map_taz_to_micro_nodes tz ml mil mn c = Inl KeyError"
  by (induction tz) (auto simp add: candidate_def split: sum.splits)












lemma connector_link_id [simp]: "link_id (connector i a b lay g) = i"
  by (simp add: connector_def)




lemma isin_outgoing:
  "isin (link.meso_link_id l) (map link_id (filter (\<lambda>m. from_node_id m = n) ml)) \<longleftrightarrow>
     (\<exists>m \<in> set ml. from_node_id m = n \<and> link.meso_link_id l = Some (link_id m))"
  by (cases "link.meso_link_id l") (auto simp: isin_def)

lemma ex_find_nearest: "find_nearest_scc_nodes ex_taz ex_meso_nodes 1 = ex_taz_cand"
  by (simp add: find_nearest_scc_nodes_def ex_taz_def ex_meso_nodes_def taz_row_def node_row_def
      nsmallest_def distance_def set_candidates_def ex_taz_cand_def)

lemma ex_start: "find_start_micro_nodes 1 ex_meso_links ex_micro_links = {11}"
  by (auto simp add: find_start_micro_nodes_def ex_meso_links_def ex_micro_links_def
      link_row_def isin_def)

lemma ex_map_taz:
  "map_taz_to_micro_nodes ex_taz_cand ex_meso_links ex_micro_links ex_micro_nodes 1
     = Inr ex_taz_micro_map"
  by (simp add: ex_taz_cand_def taz_row_def candidate_def ex_start ex_micro_nodes_def node_row_def
      ex_taz_micro_map_def)

lemma ex_shifts: "compute_shifts ex_taz_cand ex_meso_nodes = Inr (2, 6, 3)"
  by (simp add: compute_shifts_def col_max_def ex_taz_cand_def taz_row_def ex_meso_nodes_def
      node_row_def)

lemma ex_reindex:
  "reindex_nodes ex_meso_nodes ex_micro_nodes 2 6 3
     = ((ex_meso_nodes, ex_micro_nodes), (ex_updated_meso_nodes, ex_updated_micro_nodes))"
  by (simp add: reindex_nodes_def ex_meso_nodes_def ex_micro_nodes_def node_row_def
      ex_updated_meso_nodes_def ex_updated_micro_nodes_def)

lemma ex_gen_meso:
  "generate_meso_connectors ex_fmt ex_taz_cand ex_updated_meso_nodes 1 TAZ_clean 2
     = Inr ex_meso_connectors"
  by (simp add: generate_meso_connectors_def ex_taz_cand_def taz_row_def candidate_def
      ex_updated_meso_nodes_def node_row_def iloc0_def linestring_def ex_fmt_def
      ex_meso_connectors_def)

lemma ex_gen_micro:
  "generate_micro_connectors ex_fmt ex_taz_cand ex_taz_micro_map ex_micro_nodes TAZ_clean 6 1
     = Inr ex_micro_connectors"
  by (simp add: generate_micro_connectors_def ex_taz_cand_def taz_row_def ex_taz_micro_map_def
      iloc0_def linestring_def ex_fmt_def ex_micro_connectors_def)









lemma ex_prepare:
  "prepare_and_generate_connectors ex_fmt ex_taz_cand ex_meso_nodes ex_micro_nodes
      ex_taz_micro_map 1 TAZ_clean
   = Inr \<lparr>updated_meso_nodes = ex_updated_meso_nodes, updated_micro_nodes = ex_updated_micro_nodes,
          taz_nodes = create_taz_nodes ex_taz_cand TAZ_clean,
          meso_connectors_df = ex_meso_connectors, micro_connectors_df = ex_micro_connectors,
          node_shift_meso = 2, node_shift_micro = 6, link_shift_meso = 3\<rparr>"
  by (simp add: prepare_and_generate_connectors_def ex_shifts ex_reindex ex_gen_meso ex_gen_micro
      del: One_nat_def)

lemma ex_main_eq:
  "main ex_fmt ex_taz ex_meso_nodes ex_meso_links ex_micro_nodes ex_micro_links
   = merge_network_layers ex_meso_links ex_meso_connectors ex_micro_links ex_micro_connectors
       ex_updated_meso_nodes ex_updated_micro_nodes (create_taz_nodes ex_taz_cand TAZ_clean) 2 6 3"
  by (simp add: main_def ex_find_nearest ex_map_taz ex_prepare del: One_nat_def)

lemma ex_merge_link_ids:
  "map_sum id final_link_ids
     (merge_network_layers ex_meso_links ex_meso_connectors ex_micro_links ex_micro_connectors
       ex_updated_meso_nodes ex_updated_micro_nodes (create_taz_nodes ex_taz_cand TAZ_clean) 2 6 3)
   = Inr [1, 7, 2, 4, 5, 6, 8, 10, 11]"
  by (simp add: merge_network_layers_def Let_def col_max_def final_link_ids_def ex_meso_links_def
      ex_micro_links_def link_row_def ex_meso_connectors_def ex_micro_connectors_def
      connector_def)

lemma ex_merge_node_ids:
  "map_sum id final_node_ids
     (merge_network_layers ex_meso_links ex_meso_connectors ex_micro_links ex_micro_connectors
       ex_updated_meso_nodes ex_updated_micro_nodes (create_taz_nodes ex_taz_cand TAZ_clean) 2 6 3)
   = Inr [1, 3, 4, 5, 6, 17, 18, 19]"
  by (simp add: merge_network_layers_def Let_def col_max_def final_node_ids_def ex_meso_links_def
      ex_micro_links_def link_row_def ex_meso_connectors_def ex_micro_connectors_def
      connector_def ex_updated_meso_nodes_def ex_updated_micro_nodes_def node_row_def
      create_taz_nodes_def ex_taz_cand_def taz_row_def project_node_def)


lemma find_nearest_no_core:
  assumes "\<forall>n \<in> set meso_nodes. scc_id n \<noteq> 0"
  shows "find_nearest_scc_nodes taz_df meso_nodes k = taz_df"
proof -
  have "filter (\<lambda>n. scc_id n = 0) meso_nodes = []"
    using assms by (simp add: filter_empty_conv)
  then show ?thesis
    by (simp add: find_nearest_scc_nodes_def nsmallest_def set_candidates_def map_idI)
qed










lemmas ex_defs = ex_taz_def ex_meso_nodes_def ex_meso_links_def ex_micro_nodes_def
  ex_micro_links_def ex_neg_meso_links_def ex_neg_micro_links_def ex_zero_micro_nodes_def
  ex_zero_micro_links_def taz_row_def node_row_def link_row_def ex_fmt_def

lemmas stage_defs = main_def find_nearest_scc_nodes_def nsmallest_def distance_def
  set_candidates_def candidate_def find_start_micro_nodes_def isin_def
  prepare_and_generate_connectors_def compute_shifts_def col_max_def reindex_nodes_def
  create_taz_nodes_def generate_meso_connectors_def generate_micro_connectors_def iloc0_def
  linestring_def connector_def merge_network_layers_def project_node_def Let_def

text \<open>The one shift without a \<open>+ 1\<close>: \<open>node_shift_micro\<close> is the largest shifted meso
  node id, so a micro node with the id 0 lands on it.\<close>

lemma micro_node_zero_collides:
  "map_sum id final_node_ids
     (main ex_fmt ex_taz ex_meso_nodes ex_meso_links ex_zero_micro_nodes ex_zero_micro_links)
   = Inr [1, 3, 4, 5, 6, 6, 18, 19]"
  by (simp add: ex_defs stage_defs final_node_ids_def)

section \<open>Theorems\<close>

text \<open>
  C6. For every meso node id and every meso-link and micro-link table,
  \<^verbatim>\<open>find_start_micro_nodes\<close> returns exactly the node ids that are the \<open>from_node_id\<close> of some
  micro link of the subset and the \<open>to_node_id\<close> of none, the subset being the micro links
  whose \<open>meso_link_id\<close> is the id of a meso link leaving the given node; the result is
  empty when no meso link leaves the node, and when no micro link subdivides one that does.
\<close>

theorem find_start_micro_nodes_exact:
  "(v \<in> find_start_micro_nodes n meso_links micro_links \<longleftrightarrow>
      (\<exists>l \<in> set micro_links. \<exists>m \<in> set meso_links.
          from_node_id m = n \<and> link.meso_link_id l = Some (link_id m) \<and> from_node_id l = v) \<and>
      \<not> (\<exists>l \<in> set micro_links. \<exists>m \<in> set meso_links.
          from_node_id m = n \<and> link.meso_link_id l = Some (link_id m) \<and> to_node_id l = v))
   \<and> ((\<forall>m \<in> set meso_links. from_node_id m \<noteq> n) \<longrightarrow>
        find_start_micro_nodes n meso_links micro_links = {})
   \<and> ((\<forall>l \<in> set micro_links. \<forall>m \<in> set meso_links.
          from_node_id m = n \<longrightarrow> link.meso_link_id l \<noteq> Some (link_id m)) \<longrightarrow>
        find_start_micro_nodes n meso_links micro_links = {})"
proof -
  have iff: "w \<in> find_start_micro_nodes n meso_links micro_links \<longleftrightarrow>
      (\<exists>l \<in> set micro_links. \<exists>m \<in> set meso_links.
          from_node_id m = n \<and> link.meso_link_id l = Some (link_id m) \<and> from_node_id l = w) \<and>
      \<not> (\<exists>l \<in> set micro_links. \<exists>m \<in> set meso_links.
          from_node_id m = n \<and> link.meso_link_id l = Some (link_id m) \<and> to_node_id l = w)" for w
    unfolding find_start_micro_nodes_def Let_def
    by (auto simp add: isin_outgoing image_iff)
  have e1: "find_start_micro_nodes n meso_links micro_links = {}"
    if "\<forall>m \<in> set meso_links. from_node_id m \<noteq> n"
  proof (rule equals0I)
    fix w assume "w \<in> find_start_micro_nodes n meso_links micro_links"
    with iff[of w] that show False by blast
  qed
  have e2: "find_start_micro_nodes n meso_links micro_links = {}"
    if "\<forall>l \<in> set micro_links. \<forall>m \<in> set meso_links.
          from_node_id m = n \<longrightarrow> link.meso_link_id l \<noteq> Some (link_id m)"
  proof (rule equals0I)
    fix w assume "w \<in> find_start_micro_nodes n meso_links micro_links"
    with iff[of w] that show False by blast
  qed
  from iff[of v] e1 e2 show ?thesis by blast
qed

theorem find_start_micro_nodes_exact_witness:
  "11 \<in> find_start_micro_nodes 1 ex_meso_links ex_micro_links
   \<and> 12 \<notin> find_start_micro_nodes 1 ex_meso_links ex_micro_links
   \<and> 4 \<notin> from_node_id ` set ex_meso_links
   \<and> find_start_micro_nodes 4 ex_meso_links ex_micro_links = {}
   \<and> \<not> (\<exists>l \<in> set ex_micro_links. \<exists>m \<in> set ex_meso_links.
          from_node_id m = 2 \<and> link.meso_link_id l = Some (link_id m))
   \<and> find_start_micro_nodes 2 ex_meso_links ex_micro_links = {}"
proof -
  have a: "\<forall>m \<in> set ex_meso_links. from_node_id m \<noteq> 4"
    by (simp add: ex_meso_links_def link_row_def)
  have b: "\<forall>l \<in> set ex_micro_links. \<forall>m \<in> set ex_meso_links.
          from_node_id m = 2 \<longrightarrow> link.meso_link_id l \<noteq> Some (link_id m)"
    by (simp add: ex_meso_links_def ex_micro_links_def link_row_def)
  note t1 = find_start_micro_nodes_exact[of 11 1 ex_meso_links ex_micro_links, THEN conjunct1]
  note t2 = find_start_micro_nodes_exact[of 12 1 ex_meso_links ex_micro_links, THEN conjunct1]
  note t3 = find_start_micro_nodes_exact[of 0 4 ex_meso_links ex_micro_links,
      THEN conjunct2, THEN conjunct1, THEN mp, OF a]
  note t4 = find_start_micro_nodes_exact[of 0 2 ex_meso_links ex_micro_links,
      THEN conjunct2, THEN conjunct2, THEN mp, OF b]
  have c: "11 \<in> find_start_micro_nodes 1 ex_meso_links ex_micro_links"
    unfolding t1 by (simp add: ex_meso_links_def ex_micro_links_def link_row_def)
  have d: "12 \<notin> find_start_micro_nodes 1 ex_meso_links ex_micro_links"
    unfolding t2 by (simp add: ex_meso_links_def ex_micro_links_def link_row_def)
  from a have a': "4 \<notin> from_node_id ` set ex_meso_links" by auto
  from b have b': "\<not> (\<exists>l \<in> set ex_micro_links. \<exists>m \<in> set ex_meso_links.
          from_node_id m = 2 \<and> link.meso_link_id l = Some (link_id m))" by blast
  from a' b' c d t3 t4 show ?thesis by blast
qed

text \<open>
  C10. For every TAZ row, \<^verbatim>\<open>map_taz_to_micro_nodes\<close> emits one row for each row of the
  micro node table whose \<open>node_id\<close> is an entry node of the TAZ's candidate, and no other
  row: an entry node id that has no row in the micro node table yields no row and no
  error. (The only error of the function is the KeyError of a TAZ row without the
  candidate column.)
\<close>

theorem map_taz_to_micro_nodes_rows:
  assumes "\<forall>t \<in> set tz. 1 \<le> c \<and> c \<le> length (candidates t)"
  shows "\<exists>rows. map_taz_to_micro_nodes tz ml mil mn c = Inr rows \<and>
     (\<forall>r \<in> set rows. \<exists>t \<in> set tz. \<exists>n \<in> set mn.
         taz_id r = TAZ_clean t \<and> micro_node_id r = node.node_id n \<and>
         taz_micro.x_coord r = node.x_coord n \<and> taz_micro.y_coord r = node.y_coord n \<and>
         node.node_id n \<in> find_start_micro_nodes (candidates t ! (c - 1)) ml mil) \<and>
     (\<forall>t \<in> set tz. \<forall>n \<in> set mn.
         node.node_id n \<in> find_start_micro_nodes (candidates t ! (c - 1)) ml mil \<longrightarrow>
         (\<exists>r \<in> set rows. taz_id r = TAZ_clean t \<and> micro_node_id r = node.node_id n)) \<and>
     (\<forall>t \<in> set tz. \<forall>v \<in> find_start_micro_nodes (candidates t ! (c - 1)) ml mil.
         v \<notin> node.node_id ` set mn \<longrightarrow> (\<forall>r \<in> set rows. micro_node_id r \<noteq> v))"
proof -
  let ?row = "\<lambda>t n. \<lparr>taz_id = TAZ_clean t, micro_node_id = node.node_id n,
                       x_coord = node.x_coord n, y_coord = node.y_coord n\<rparr>"
  let ?rows = "concat (map (\<lambda>t. map (?row t)
                 (filter (\<lambda>n. node.node_id n \<in>
                     find_start_micro_nodes (candidates t ! (c - 1)) ml mil) mn)) tz)"
  have eq: "map_taz_to_micro_nodes tz ml mil mn c = Inr ?rows"
    using assms by (rule map_taz_to_micro_nodes_eq)
  have only: "\<forall>r \<in> set ?rows. \<exists>t \<in> set tz. \<exists>n \<in> set mn.
         taz_id r = TAZ_clean t \<and> micro_node_id r = node.node_id n \<and>
         taz_micro.x_coord r = node.x_coord n \<and> taz_micro.y_coord r = node.y_coord n \<and>
         node.node_id n \<in> find_start_micro_nodes (candidates t ! (c - 1)) ml mil"
    by auto
  have all: "\<forall>t \<in> set tz. \<forall>n \<in> set mn.
         node.node_id n \<in> find_start_micro_nodes (candidates t ! (c - 1)) ml mil \<longrightarrow>
         (\<exists>r \<in> set ?rows. taz_id r = TAZ_clean t \<and> micro_node_id r = node.node_id n)"
    by fastforce
  have dropped: "\<forall>t \<in> set tz. \<forall>v \<in> find_start_micro_nodes (candidates t ! (c - 1)) ml mil.
         v \<notin> node.node_id ` set mn \<longrightarrow> (\<forall>r \<in> set ?rows. micro_node_id r \<noteq> v)"
    using only by blast
  from eq only all dropped show ?thesis by blast
qed

theorem map_taz_to_micro_nodes_rows_witness:
  "list_all (\<lambda>t. (1::nat) \<le> 1 \<and> 1 \<le> length (candidates t)) ex_taz_cand
   \<and> 11 \<in> find_start_micro_nodes (candidates (hd ex_taz_cand) ! 0) ex_meso_links ex_micro_links
   \<and> 11 \<notin> node.node_id ` set (tl ex_micro_nodes)
   \<and> (\<exists>rows. map_taz_to_micro_nodes ex_taz_cand ex_meso_links ex_micro_links (tl ex_micro_nodes) 1
                = Inr rows \<and> (\<forall>r \<in> set rows. micro_node_id r \<noteq> 11))"
proof -
  have h: "\<forall>t \<in> set ex_taz_cand. (1::nat) \<le> 1 \<and> 1 \<le> length (candidates t)"
    by (simp add: ex_taz_cand_def taz_row_def)
  have t: "hd ex_taz_cand \<in> set ex_taz_cand" by (simp add: ex_taz_cand_def)
  have a: "11 \<in> find_start_micro_nodes (candidates (hd ex_taz_cand) ! (1 - 1)) ex_meso_links ex_micro_links"
    by (simp add: find_start_micro_nodes_def ex_taz_cand_def taz_row_def ex_meso_links_def
        ex_micro_links_def link_row_def isin_def)
  have b: "11 \<notin> node.node_id ` set (tl ex_micro_nodes)"
    by (simp add: ex_micro_nodes_def node_row_def)
  from map_taz_to_micro_nodes_rows[OF h, of ex_meso_links ex_micro_links "tl ex_micro_nodes"]
  obtain rows where
    r: "map_taz_to_micro_nodes ex_taz_cand ex_meso_links ex_micro_links (tl ex_micro_nodes) 1 = Inr rows"
    and d: "\<forall>t \<in> set ex_taz_cand.
              \<forall>v \<in> find_start_micro_nodes (candidates t ! (1 - 1)) ex_meso_links ex_micro_links.
                v \<notin> node.node_id ` set (tl ex_micro_nodes) \<longrightarrow> (\<forall>r \<in> set rows. micro_node_id r \<noteq> v)"
    by blast
  from d t a b have "\<forall>r \<in> set rows. micro_node_id r \<noteq> 11" by blast
  with h a b r show ?thesis by (auto simp: list_all_iff)
qed







text \<open>
  C3. The claim is that every row of the final node table, meso and micro rows included,
  carries the node's coordinates in the columns \<open>x\<close> and \<open>y\<close>. On the example the
  final node table, sorted by \<open>node_id\<close>, holds the TAZ row with its coordinates and every
  meso and micro row with \<open>x\<close> and \<open>y\<close> missing: their coordinates are in the columns
  \<open>x_coord\<close> and \<open>y_coord\<close>, which the projection drops.
\<close>

theorem final_nodes_without_coordinates:
  "map_sum id final_node_xy
     (main ex_fmt ex_taz ex_meso_nodes ex_meso_links ex_micro_nodes ex_micro_links)
   = Inr [(1, Some 0, Some 0, Some Taz),
          (3, None, None, Some Meso), (4, None, None, Some Meso),
          (5, None, None, Some Meso), (6, None, None, Some Meso),
          (17, None, None, Some Micro), (18, None, None, Some Micro),
          (19, None, None, Some Micro)]"
  unfolding ex_main_eq
  by (simp add: merge_network_layers_def Let_def col_max_def final_node_xy_def ex_meso_links_def
      ex_micro_links_def link_row_def ex_meso_connectors_def ex_micro_connectors_def
      connector_def ex_updated_meso_nodes_def ex_updated_micro_nodes_def node_row_def
      create_taz_nodes_def ex_taz_cand_def taz_row_def project_node_def)

text \<open>
  C7 (amended). When no meso node has \<open>scc_id = 0\<close>, \<^verbatim>\<open>find_nearest_scc_nodes\<close> does not
  raise and returns every TAZ row without a candidate written. The next stage does not
  survive these rows: on a TAZ table with at least one row and no candidate column,
  \<^verbatim>\<open>map_taz_to_micro_nodes\<close> raises KeyError at \<^verbatim>\<open>row[candidate_col]\<close>, and so does the
  pipeline.
\<close>

theorem empty_core_raises_downstream:
  assumes "\<forall>n \<in> set meso_nodes. scc_id n \<noteq> 0"
  shows "find_nearest_scc_nodes taz_df meso_nodes k = taz_df
     \<and> (taz_df \<noteq> [] \<and> (\<forall>t \<in> set taz_df. candidates t = []) \<longrightarrow>
          map_taz_to_micro_nodes (find_nearest_scc_nodes taz_df meso_nodes k)
              meso_links micro_links micro_nodes c = Inl KeyError
        \<and> main fmt taz_df meso_nodes meso_links micro_nodes micro_links = Inl KeyError)"
proof (intro conjI impI)
  show eq: "find_nearest_scc_nodes taz_df meso_nodes k = taz_df"
    using assms by (rule find_nearest_no_core)
  assume a: "taz_df \<noteq> [] \<and> (\<forall>t \<in> set taz_df. candidates t = [])"
  then have ex: "\<exists>t \<in> set taz_df. \<not> (1 \<le> c' \<and> c' \<le> length (candidates t))" for c' :: nat
    by (cases taz_df) auto
  show "map_taz_to_micro_nodes (find_nearest_scc_nodes taz_df meso_nodes k)
              meso_links micro_links micro_nodes c = Inl KeyError"
    unfolding eq using ex by (rule map_taz_to_micro_nodes_keyerror)
  have "find_nearest_scc_nodes taz_df meso_nodes 1 = taz_df"
    using assms by (rule find_nearest_no_core)
  moreover have "map_taz_to_micro_nodes taz_df meso_links micro_links micro_nodes 1 = Inl KeyError"
    using ex by (rule map_taz_to_micro_nodes_keyerror)
  ultimately show "main fmt taz_df meso_nodes meso_links micro_nodes micro_links = Inl KeyError"
    by (simp add: main_def del: One_nat_def)
qed

theorem empty_core_raises_downstream_witness:
  "list_all (\<lambda>n. scc_id n \<noteq> 0) ex_no_core
   \<and> ex_taz \<noteq> [] \<and> list_all (\<lambda>t. candidates t = []) ex_taz
   \<and> find_nearest_scc_nodes ex_taz ex_no_core 1 = ex_taz
   \<and> map_taz_to_micro_nodes (find_nearest_scc_nodes ex_taz ex_no_core 1)
        ex_meso_links ex_micro_links ex_micro_nodes 1 = Inl KeyError
   \<and> main ex_fmt ex_taz ex_no_core ex_meso_links ex_micro_nodes ex_micro_links = Inl KeyError"
proof -
  have h: "\<forall>n \<in> set ex_no_core. scc_id n \<noteq> 0" by (simp add: ex_no_core_def node_row_def)
  have g: "ex_taz \<noteq> [] \<and> (\<forall>t \<in> set ex_taz. candidates t = [])"
    by (simp add: ex_taz_def taz_row_def)
  note t = empty_core_raises_downstream[OF h, of ex_taz 1 ex_meso_links ex_micro_links
      ex_micro_nodes 1 ex_fmt]
  note t1 = t[THEN conjunct1]
  note t2 = t[THEN conjunct2, THEN mp, OF g, THEN conjunct1]
  note t3 = t[THEN conjunct2, THEN mp, OF g, THEN conjunct2]
  have h': "list_all (\<lambda>n. scc_id n \<noteq> 0) ex_no_core" using h by (simp add: list_all_iff)
  have g1: "ex_taz \<noteq> []" using g by blast
  have g2: "list_all (\<lambda>t. candidates t = []) ex_taz" using g by (simp add: list_all_iff)
  from h' g1 g2 t1 t2 t3 show ?thesis by (intro conjI)
qed

text \<open>The claim C7 as stated fails on the example with its only core node removed.\<close>

theorem empty_core_counterexample:
  "map candidates (find_nearest_scc_nodes ex_taz ex_no_core 1) = [[]]
   \<and> map_taz_to_micro_nodes (find_nearest_scc_nodes ex_taz ex_no_core 1)
        ex_meso_links ex_micro_links ex_micro_nodes 1 = Inl KeyError
   \<and> main ex_fmt ex_taz ex_no_core ex_meso_links ex_micro_nodes ex_micro_links = Inl KeyError"
proof -
  have a: "find_nearest_scc_nodes ex_taz ex_no_core 1 = ex_taz"
    by (simp add: find_nearest_scc_nodes_def ex_no_core_def node_row_def nsmallest_def
        set_candidates_def ex_taz_def taz_row_def)
  have b: "map_taz_to_micro_nodes ex_taz ex_meso_links ex_micro_links ex_micro_nodes 1
             = Inl KeyError"
    by (simp add: ex_taz_def taz_row_def candidate_def)
  have c: "map candidates ex_taz = [[]]" by (simp add: ex_taz_def taz_row_def)
  show ?thesis by (simp add: main_def a b c del: One_nat_def)
qed










end
